theory Spec2Isabelle
  imports Complex_Main "HOL-Library.Sublist"
begin

section \<open>Data Ingestion Service: data model\<close>

text \<open>
  A shallow embedding of \<^verbatim>\<open>dataingestion/dataingestionservice.py\<close> (class
  \<^verbatim>\<open>DataIngestionService\<close>) and of the worker task of
  \<^verbatim>\<open>dataingestion/seriesprocesser.py\<close>.

  A sample is a float64 of a Pandas data frame: either NaN or a number. Numbers are
  modelled as exact rationals; floating-point rounding is outside the model.
\<close>

datatype cell = NaN | Num rat

text \<open>
  A row of the temporary data frame \<^verbatim>\<open>df_temp\<close> and of the output file: the
  \<^verbatim>\<open>timestamp\<close> column, then the \<^verbatim>\<open>ANOMALOUS\<close> column and the sample columns
  (\<open>cells\<close>). Timestamps are seconds since the epoch.
\<close>

record row =
  timestamp :: int
  cells :: "cell list"


datatype kind = Labeled | Unlabeled

text \<open>\<^verbatim>\<open>SeriesTypeConfiguration\<close> (the paths are represented by the resources themselves).\<close>

record series_type_conf =
  series_type :: kind
  input_file_extension :: string
  input_file_datetime_format :: string
  input_series_separator :: string
  output_series_separator :: string
  max_null_perc :: rat
  max_consec_null :: int
  null_filling_strategy :: string
  duplicated_policy :: string
  malformed_policy :: string

text \<open>\<^verbatim>\<open>DataIngestionConfiguration\<close>.\<close>

record conf =
  sample_size :: nat
  default_label :: string
  starting_index :: int
  max_series_per_run :: int
  multi_core_enable :: bool
  multi_core_limit :: int
  labeled :: series_type_conf
  unlabeled :: series_type_conf

text \<open>
  An input series file as \<^verbatim>\<open>_process_series\<close> sees it: its name, its content, its
  \<^verbatim>\<open>st_ctime\<close>, and whether the operating system refuses the operations on it
  (\<open>stat_fails\<close>: \<^verbatim>\<open>stat()\<close> or the read raises OSError; \<open>copy_fails\<close>: copying it to
  the malformed directory or appending the cause raises OSError; \<open>unlink_fails\<close>:
  removing it raises OSError).
\<close>

record series_file =
  name :: string
  content :: string
  st_ctime :: int
  stat_fails :: bool
  copy_fails :: bool
  unlink_fails :: bool

definition st_size :: "series_file \<Rightarrow> nat" where
  "st_size f = length (content f)"

text \<open>
  The resources of one series type: the input directory in \<^verbatim>\<open>iterdir()\<close> order, the
  malformed output directory (file name and content), the rows of the output file,
  and how many times the output file has been rewritten.
\<close>

record fs_state =
  input_dir :: "series_file list"
  malformed_dir :: "(string \<times> string) list"
  output_file :: "row list"
  output_writes :: nat

text \<open>Failures of the operating system outside \<^verbatim>\<open>_process_series\<close>.\<close>

record faults =
  iterdir_fails :: bool
  out_read_fails :: bool
  out_write_fails :: bool

text \<open>
  The library functions the service calls, taken as parameters:
  \<^verbatim>\<open>datetime.strptime\<close> (\<open>None\<close>: ValueError), \<^verbatim>\<open>pandas.read_csv\<close> with
  \<^verbatim>\<open>header=None, dtype="float64"\<close> applied to a separator and a content (\<open>Inl\<close>: a
  ValueError with its message), and the message of the ValueError that
  \<^verbatim>\<open>fillna\<close> raises on an unknown method.
\<close>

record pylib =
  strptime :: "string \<Rightarrow> string \<Rightarrow> int option"
  read_csv :: "string \<Rightarrow> string \<Rightarrow> string + cell list list"
  fillna_method_error :: "string \<Rightarrow> string"

text \<open>
  Exceptions that leave a function. \<open>WorkerDied\<close>: a worker task ended on an uncaught
  exception, so the reply the service waits for never comes.
\<close>

datatype error = OSError | FileExistsError | KeyError | IndexError | ValueError | WorkerDied

text \<open>The warnings and critical messages of the service, and two of its info messages.\<close>

datatype event =
    WarnEmptySeries string
  | WarnDatetimeFallback string
  | WarnMultiRow string nat
  | WarnInvalidAnomalous string
  | WarnTruncated string nat
  | WarnNullFilled string nat
  | WarnNullThreshold string
  | WarnConsecNull string
  | WarnParseError string string
  | WarnCleanup string
  | CritMaxSeries int
  | WarnMaxSeriesMultiCore int
  | CritIterdir
  | WarnWrongFiles "string list"
  | InfoNoSeriesFound
  | InfoMaxReached int
  | CritProcessing string
  | CritPersist

section \<open>Python helpers\<close>

definition newline :: char where
  "newline = CHR 0x0A"

text \<open>\<^verbatim>\<open>str(n)\<close> on integers.\<close>

definition digit_char :: "nat \<Rightarrow> char" where
  "digit_char d = char_of (48 + d)"

function str_nat :: "nat \<Rightarrow> string" where
  "str_nat n = (if n < 10 then [digit_char n] else str_nat (n div 10) @ [digit_char (n mod 10)])"
  by pat_completeness auto
termination
  by (relation "measure (\<lambda>n. n)") auto

declare str_nat.simps [simp del]

definition str_int :: "int \<Rightarrow> string" where
  "str_int i = (if i < 0 then CHR ''-'' # str_nat (nat (- i)) else str_nat (nat i))"

text \<open>\<^verbatim>\<open>int(x)\<close> on a float: truncation towards zero.\<close>

definition py_int :: "rat \<Rightarrow> int" where
  "py_int q = (if q < 0 then \<lceil>q\<rceil> else \<lfloor>q\<rfloor>)"

text \<open>\<^verbatim>\<open>sep.join(xs)\<close>.\<close>

fun join :: "string \<Rightarrow> string list \<Rightarrow> string" where
  "join sep [] = []"
| "join sep [x] = x"
| "join sep (x # y # ys) = x @ sep @ join sep (y # ys)"

text \<open>
  \<^verbatim>\<open>s.split(sep)\<close> for a non-empty separator: \<open>split_from sep acc s\<close> scans \<open>s\<close> from
  the left with the piece read so far in \<open>acc\<close>. An empty separator raises ValueError.
\<close>

function split_from :: "string \<Rightarrow> string \<Rightarrow> string \<Rightarrow> string list" where
  "split_from sep acc s =
     (if s = [] then [acc]
      else if sep \<noteq> [] \<and> take (length sep) s = sep
        then acc # split_from sep [] (drop (length sep) s)
      else split_from sep (acc @ [hd s]) (tl s))"
  by pat_completeness auto
termination
  by (relation "measure (\<lambda>(sep, acc, s). length s)") auto

declare split_from.simps [simp del]

definition split :: "string \<Rightarrow> string \<Rightarrow> error + string list" where
  "split sep s = (if sep = [] then Inl ValueError else Inr (split_from sep [] s))"

text \<open>\<^verbatim>\<open>f.readline()\<close> on a file just opened: up to and including the first newline.\<close>

definition readline :: "string \<Rightarrow> string" where
  "readline s =
     takeWhile (\<lambda>c. c \<noteq> newline) s @ (if newline \<in> set s then [newline] else [])"

section \<open>The series column headers\<close>

text \<open>
  \<^verbatim>\<open>__init__\<close>: \<^verbatim>\<open>["timestamp", "ANOMALOUS"]\<close> extended with
  \<^verbatim>\<open>str(default_label) + str(starting_index + i)\<close> for \<^verbatim>\<open>i in range(0, sample_size)\<close>.
\<close>

definition series_columns :: "conf \<Rightarrow> string list" where
  "series_columns c =
     [''timestamp'', ''ANOMALOUS''] @
     map (\<lambda>i. default_label c @ str_int (starting_index c + int i)) [0..<sample_size c]"

section \<open>Processing one series: \<^verbatim>\<open>_process_series\<close>\<close>

datatype outcome = Valid row | Malformed string

definition isnull :: "cell \<Rightarrow> bool" where
  "isnull x = (x = NaN)"

text \<open>\<^verbatim>\<open>df.iloc[0].isnull().sum()\<close>.\<close>

definition null_samples_count :: "cell list \<Rightarrow> nat" where
  "null_samples_count r = length (filter isnull r)"

text \<open>
  \<^verbatim>\<open>isnull().astype(int).groupby(notnull().astype(int).cumsum()).sum()\<close>: a group is a
  value that is not null with the nulls that follow it (and the nulls before the first
  such value); \<open>null_group_sums k r\<close> lists the nulls of each group, \<open>k\<close> counting those
  of the group being read. \<open>max_consec_null_of\<close> is the maximum of the sums.
\<close>

fun null_group_sums :: "nat \<Rightarrow> cell list \<Rightarrow> nat list" where
  "null_group_sums k [] = [k]"
| "null_group_sums k (x # xs) =
     (if isnull x then null_group_sums (Suc k) xs else k # null_group_sums 0 xs)"

definition max_consec_null_of :: "cell list \<Rightarrow> nat" where
  "max_consec_null_of r = foldr max (null_group_sums 0 r) 0"

text \<open>
  The difference between the expected and the actual number of columns
  (\<^verbatim>\<open>sample_size + 1 - df.shape[1]\<close>), and the truncation or the filling with NaN that
  follows it.
\<close>

definition samples_delta :: "nat \<Rightarrow> cell list \<Rightarrow> int" where
  "samples_delta n r = int n + 1 - int (length r)"

definition reconcile :: "nat \<Rightarrow> string \<Rightarrow> cell list \<Rightarrow> cell list \<times> event list" where
  "reconcile n nm r =
     (if samples_delta n r < 0
        then (take (n + 1) r, [WarnTruncated nm (nat \<bar>samples_delta n r\<bar>)])
      else if samples_delta n r > 0
        then (r @ replicate (nat (samples_delta n r)) NaN,
              [WarnNullFilled nm (nat (samples_delta n r))])
      else (r, []))"

text \<open>\<^verbatim>\<open>df.fillna(0, axis=1)\<close>.\<close>

definition zero_fill :: "cell list \<Rightarrow> cell list" where
  "zero_fill r = map (\<lambda>x. if isnull x then Num 0 else x) r"

text \<open>
  \<^verbatim>\<open>df.fillna(method="ffill", axis=1)\<close> and \<^verbatim>\<open>"bfill"\<close>: \<open>pad_from p r\<close> carries the
  last value seen; nulls before the first value stay.
\<close>

fun pad_from :: "cell \<Rightarrow> cell list \<Rightarrow> cell list" where
  "pad_from p [] = []"
| "pad_from p (x # xs) = (if isnull x then p # pad_from p xs else x # pad_from x xs)"

definition ffill :: "cell list \<Rightarrow> cell list" where
  "ffill r = pad_from NaN r"

definition bfill :: "cell list \<Rightarrow> cell list" where
  "bfill r = rev (pad_from NaN (rev r))"

text \<open>
  \<^verbatim>\<open>df.interpolate(method="linear", axis=1)\<close>: the nulls between two values are
  spread evenly between them, the nulls after the last value take that value, the
  nulls before the first value stay. \<open>interp_from v r\<close> fills \<open>r\<close>, which follows the
  value \<open>v\<close>.
\<close>

function interp_from :: "rat \<Rightarrow> cell list \<Rightarrow> cell list" where
  "interp_from v r =
     (if r = [] then []
      else case dropWhile isnull r of
        [] \<Rightarrow> replicate (length r) (Num v)
      | NaN # rest \<Rightarrow> replicate (length r) (Num v)
      | Num w # rest \<Rightarrow>
          (let k = length (takeWhile isnull r)
           in map (\<lambda>i. Num (v + (w - v) * of_nat i / of_nat (k + 1))) [1..<k + 1] @
              Num w # interp_from w rest))"
  by pat_completeness auto
termination
proof (relation "measure (\<lambda>(v, r). length r)")
  show "wf (measure (\<lambda>(v, r). length r))" by simp
next
  fix v :: rat and r :: "cell list" and x21 :: cell and x22 :: "cell list" and x2 :: rat
  assume "r \<noteq> []" and d: "dropWhile isnull r = x21 # x22" and "x21 = Num x2"
  have "length (dropWhile isnull r) \<le> length r"
    by (rule length_dropWhile_le)
  with d show "((x2, x22), v, r) \<in> measure (\<lambda>(v, r). length r)" by simp
qed

declare interp_from.simps [simp del]

definition interpolate_linear :: "cell list \<Rightarrow> cell list" where
  "interpolate_linear r =
     takeWhile isnull r @
     (case dropWhile isnull r of
        [] \<Rightarrow> []
      | NaN # rest \<Rightarrow> NaN # rest
      | Num v # rest \<Rightarrow> Num v # interp_from v rest)"

text \<open>
  The methods \<^verbatim>\<open>fillna\<close> accepts: \<^verbatim>\<open>pad\<close> and \<^verbatim>\<open>ffill\<close> fill forwards,
  \<^verbatim>\<open>backfill\<close> and \<^verbatim>\<open>bfill\<close> backwards, any other string raises ValueError.
\<close>

definition fill_nulls :: "pylib \<Rightarrow> string \<Rightarrow> cell list \<Rightarrow> string + cell list" where
  "fill_nulls lib strategy r =
     (if strategy = ''linearInterpolation'' then Inr (interpolate_linear r)
      else if strategy = ''zeroFill'' then Inr (zero_fill r)
      else if strategy = ''pad'' \<or> strategy = ''ffill'' then Inr (ffill r)
      else if strategy = ''backfill'' \<or> strategy = ''bfill'' then Inr (bfill r)
      else Inl (fillna_method_error lib strategy))"

definition parse_error_cause :: "string \<Rightarrow> string" where
  "parse_error_cause msg = ''ValueError in parsing the series ('' @ msg @ '')''"

text \<open>
  The checks of \<^verbatim>\<open>_process_series\<close> (everything before its cleanup operations): the outcome
  for the series and the warnings logged. \<open>Inl OSError\<close>: the file cannot be read;
  \<open>Inl KeyError\<close>: \<^verbatim>\<open>df.at[0, 0]\<close> on a row without columns.
\<close>

definition check_series ::
  "pylib \<Rightarrow> conf \<Rightarrow> series_type_conf \<Rightarrow> series_file \<Rightarrow> error + (outcome \<times> event list)" where
  "check_series lib c ct f =
     (if stat_fails f then Inl OSError
      else if st_size f = 0
        then Inr (Malformed ''empty series'', [WarnEmptySeries (name f)])
      else
        let (series_timestamp, ev1) =
              (case strptime lib (take (length (name f) - 4) (name f))
                      (input_file_datetime_format ct) of
                 Some t \<Rightarrow> (t, [])
               | None \<Rightarrow> (st_ctime f, [WarnDatetimeFallback (name f)]))
        in case read_csv lib (input_series_separator ct) (content f) of
             Inl msg \<Rightarrow>
               Inr (Malformed (parse_error_cause msg), ev1 @ [WarnParseError (name f) msg])
           | Inr df \<Rightarrow>
               (case df of
                  [r0] \<Rightarrow>
                    if series_type ct = Labeled \<and> r0 = [] then Inl KeyError
                    else if series_type ct = Labeled \<and> hd r0 \<noteq> Num 0 \<and> hd r0 \<noteq> Num 1
                      then Inr (Malformed (''invalid '' @ [CHR 0x22] @ ''ANOMALOUS'' @
                                           [CHR 0x22] @ '' value''),
                                ev1 @ [WarnInvalidAnomalous (name f)])
                    else
                      let r1 = (if series_type ct = Unlabeled then Num (- 1) # r0 else r0);
                          (r2, ev2) = reconcile (sample_size c) (name f) r1;
                          null_count = null_samples_count r2;
                          max_consec = max_consec_null_of r2
                      in if of_nat null_count > max_null_perc ct * of_nat (sample_size c)
                           then Inr (Malformed
                                  (''NULL values threshold exceeded ('' @ str_nat null_count @
                                   '' > '' @
                                   str_int (py_int (max_null_perc ct * of_nat (sample_size c))) @
                                   '')''),
                                  ev1 @ ev2 @ [WarnNullThreshold (name f)])
                         else if int max_consec > max_consec_null ct
                           then Inr (Malformed
                                  (''Consecutive NULL values threshold exceeded ('' @
                                   str_nat max_consec @ '' > '' @
                                   str_int (max_consec_null ct) @ '')''),
                                  ev1 @ ev2 @ [WarnConsecNull (name f)])
                         else (case fill_nulls lib (null_filling_strategy ct) r2 of
                                 Inl msg \<Rightarrow>
                                   Inr (Malformed (parse_error_cause msg),
                                        ev1 @ ev2 @ [WarnParseError (name f) msg])
                               | Inr r3 \<Rightarrow>
                                   Inr (Valid \<lparr>timestamp = series_timestamp, cells = r3\<rparr>,
                                        ev1 @ ev2))
                | _ \<Rightarrow>
                    Inr (Malformed ''multi-row series'',
                         ev1 @ [WarnMultiRow (name f) (length df)])))"

text \<open>
  The cleanup operations: a malformed series is copied to the malformed directory with
  its cause on a new line unless the policy is \<^verbatim>\<open>"drop"\<close>; the series is removed from
  the input directory; an OSError on the way is logged and ends the cleanup.
\<close>

definition put_file :: "string \<Rightarrow> string \<Rightarrow> (string \<times> string) list \<Rightarrow> (string \<times> string) list" where
  "put_file nm txt d = filter (\<lambda>e. fst e \<noteq> nm) d @ [(nm, txt)]"

definition unlink :: "series_file \<Rightarrow> series_file list \<Rightarrow> series_file list" where
  "unlink f d = filter (\<lambda>g. name g \<noteq> name f) d"

definition cleanup ::
  "series_type_conf \<Rightarrow> series_file \<Rightarrow> outcome \<Rightarrow> fs_state \<Rightarrow> fs_state \<times> event list" where
  "cleanup ct f res s =
     (case res of
        Malformed malformed_cause \<Rightarrow>
          if malformed_policy ct \<noteq> ''drop'' then
            if copy_fails f then (s, [WarnCleanup (name f)])
            else
              let s1 = s\<lparr>malformed_dir :=
                          put_file (name f) (content f @ newline # malformed_cause)
                            (malformed_dir s)\<rparr>
              in if unlink_fails f then (s1, [WarnCleanup (name f)])
                 else (s1\<lparr>input_dir := unlink f (input_dir s1)\<rparr>, [])
          else if unlink_fails f then (s, [WarnCleanup (name f)])
          else (s\<lparr>input_dir := unlink f (input_dir s)\<rparr>, [])
      | Valid r \<Rightarrow>
          if unlink_fails f then (s, [WarnCleanup (name f)])
          else (s\<lparr>input_dir := unlink f (input_dir s)\<rparr>, []))"

text \<open>
  The state of a run: the temporary data frame, the resources, the messages logged.
\<close>

record run_state =
  df_temp :: "row list"
  disk :: fs_state
  trace :: "event list"

definition process_series ::
  "pylib \<Rightarrow> conf \<Rightarrow> series_type_conf \<Rightarrow> series_file \<Rightarrow> run_state \<Rightarrow> error + (bool \<times> run_state)" where
  "process_series lib c ct f st =
     (case check_series lib c ct f of
        Inl e \<Rightarrow> Inl e
      | Inr (res, evs) \<Rightarrow>
          let (s', evc) = cleanup ct f res (disk st)
          in Inr (case res of Valid r \<Rightarrow> True | Malformed m \<Rightarrow> False,
                  \<lparr>df_temp = (case res of Valid r \<Rightarrow> df_temp st @ [r] | Malformed m \<Rightarrow> df_temp st),
                   disk = s', trace = trace st @ evs @ evc\<rparr>))"

section \<open>A run of the service: \<^verbatim>\<open>_ingest_series\<close>\<close>

text \<open>
  \<^verbatim>\<open>file.name[-len(ext):] == ext\<close>. With an empty extension the slice
  \<^verbatim>\<open>name[-0:]\<close> is the whole name.
\<close>

definition has_extension :: "string \<Rightarrow> string \<Rightarrow> bool" where
  "has_extension nm ext =
     ((if ext = [] then nm else drop (length nm - length ext) nm) = ext)"

text \<open>
  \<^verbatim>\<open>numpy.array_split(xs, k)\<close>: \<open>k\<close> sub-lists, the first \<open>len(xs) % k\<close> of them with
  one element more than the others; ValueError when \<open>k\<close> is 0.
\<close>

fun chunks :: "nat list \<Rightarrow> 'a list \<Rightarrow> 'a list list" where
  "chunks [] xs = []"
| "chunks (n # ns) xs = take n xs # chunks ns (drop n xs)"

definition array_split :: "'a list \<Rightarrow> nat \<Rightarrow> error + 'a list list" where
  "array_split xs k =
     (if k = 0 then Inl ValueError
      else Inr (chunks (replicate (length xs mod k) (length xs div k + 1) @
                        replicate (k - length xs mod k) (length xs div k)) xs))"

text \<open>
  The cycle of a \<^verbatim>\<open>SeriesProcesser\<close> task over the series of one command: an OSError
  from \<^verbatim>\<open>_process_series\<close> is logged and the next series is processed; the result of
  \<^verbatim>\<open>_process_series\<close> is not used.
\<close>

fun worker_loop ::
  "pylib \<Rightarrow> conf \<Rightarrow> series_type_conf \<Rightarrow> series_file list \<Rightarrow> run_state \<Rightarrow> error + run_state" where
  "worker_loop lib c ct [] st = Inr st"
| "worker_loop lib c ct (f # rest) st =
     (case process_series lib c ct f st of
        Inl e \<Rightarrow>
          (case e of
             OSError \<Rightarrow>
               worker_loop lib c ct rest (st\<lparr>trace := trace st @ [CritProcessing (name f)]\<rparr>)
           | _ \<Rightarrow> Inl WorkerDied)
      | Inr (ok, st') \<Rightarrow> worker_loop lib c ct rest st')"

text \<open>
  Multi-core mode. Each task starts from an empty temporary data frame, and the
  service appends the data frames it receives in the order of the tasks. The tasks work
  on disjoint series; the model runs them one after the other.
\<close>

fun collect_tasks ::
  "pylib \<Rightarrow> conf \<Rightarrow> series_type_conf \<Rightarrow> series_file list list \<Rightarrow> run_state \<Rightarrow> error + run_state" where
  "collect_tasks lib c ct [] st = Inr st"
| "collect_tasks lib c ct (shard # shards) st =
     (case worker_loop lib c ct shard (st\<lparr>df_temp := []\<rparr>) of
        Inl e \<Rightarrow> Inl e
      | Inr w \<Rightarrow> collect_tasks lib c ct shards (w\<lparr>df_temp := df_temp st @ df_temp w\<rparr>))"

definition multi_core ::
  "pylib \<Rightarrow> conf \<Rightarrow> nat \<Rightarrow> series_type_conf \<Rightarrow> series_file list \<Rightarrow> run_state \<Rightarrow> error + run_state" where
  "multi_core lib c pipes ct input_series st =
     (let used_cpu = min (length input_series) pipes
      in case array_split input_series used_cpu of
           Inl e \<Rightarrow> Inl e
         | Inr input_series_division \<Rightarrow> collect_tasks lib c ct input_series_division st)"

text \<open>
  Single-core mode: the loop over the input series, \<open>v\<close> being
  \<^verbatim>\<open>valid_series_count\<close>. The loop stops when \<^verbatim>\<open>max_series > 0\<close> and the count of
  valid series reaches it; an OSError from \<^verbatim>\<open>_process_series\<close> is logged and the next
  series is processed. (A keyboard interrupt is not modelled.)
\<close>

fun single_core_loop ::
  "pylib \<Rightarrow> conf \<Rightarrow> series_type_conf \<Rightarrow> int \<Rightarrow> nat \<Rightarrow> series_file list \<Rightarrow> run_state \<Rightarrow>
     error + run_state" where
  "single_core_loop lib c ct max_series v [] st = Inr st"
| "single_core_loop lib c ct max_series v (f # rest) st =
     (case process_series lib c ct f st of
        Inl e \<Rightarrow>
          (case e of
             OSError \<Rightarrow>
               single_core_loop lib c ct max_series v rest
                 (st\<lparr>trace := trace st @ [CritProcessing (name f)]\<rparr>)
           | _ \<Rightarrow> Inl e)
      | Inr (ok, st') \<Rightarrow>
          (let v' = (if ok then Suc v else v)
           in if max_series > 0 \<and> int v' = max_series
                then Inr (st'\<lparr>trace := trace st' @ [InfoMaxReached max_series]\<rparr>)
              else single_core_loop lib c ct max_series v' rest st'))"

subsection \<open>Merging, duplicates and persistence\<close>

text \<open>
  \<^verbatim>\<open>df["ANOMALOUS"].astype("int32")\<close> on one row: the value is truncated to an integer;
  a NaN raises ValueError (the range of int32 is not modelled).
\<close>

definition cast_anomalous :: "row \<Rightarrow> error + row" where
  "cast_anomalous r =
     (case cells r of
        [] \<Rightarrow> Inl KeyError
      | NaN # rest \<Rightarrow> Inl ValueError
      | Num q # rest \<Rightarrow> Inr (r\<lparr>cells := Num (of_int (py_int q)) # rest\<rparr>))"

fun cast_all :: "row list \<Rightarrow> error + row list" where
  "cast_all [] = Inr []"
| "cast_all (r # rs) =
     (case cast_anomalous r of
        Inl e \<Rightarrow> Inl e
      | Inr r' \<Rightarrow> (case cast_all rs of Inl e \<Rightarrow> Inl e | Inr rs' \<Rightarrow> Inr (r' # rs')))"

text \<open>
  \<^verbatim>\<open>out_df.duplicated(subset=self._series_columns[1:])\<close>: a row is marked when a row
  of lower index has the same values in all columns but \<^verbatim>\<open>timestamp\<close>.
  \<open>duplicated_from seen rs\<close> marks \<open>rs\<close>, \<open>seen\<close> holding the rows before it.
\<close>

fun duplicated_from :: "cell list list \<Rightarrow> row list \<Rightarrow> bool list" where
  "duplicated_from seen [] = []"
| "duplicated_from seen (r # rs) = (cells r \<in> set seen) # duplicated_from (cells r # seen) rs"

definition duplicated :: "row list \<Rightarrow> bool list" where
  "duplicated out_df = duplicated_from [] out_df"

text \<open>
  The mask of the run: \<^verbatim>\<open>duplicates_mask[:out_df.shape[0] - df_temp.shape[0]] = False\<close>
  resets the marks of the rows the output file already had.
\<close>

definition duplicates_mask :: "row list \<Rightarrow> nat \<Rightarrow> bool list" where
  "duplicates_mask out_df n_temp =
     replicate (length out_df - n_temp) False @ drop (length out_df - n_temp) (duplicated out_df)"

text \<open>\<^verbatim>\<open>out_df.drop(out_df[duplicates_mask].index)\<close>.\<close>

definition drop_marked :: "row list \<Rightarrow> bool list \<Rightarrow> row list" where
  "drop_marked out_df marks = map fst (filter (\<lambda>p. \<not> snd p) (zip out_df marks))"

text \<open>
  The filtering of duplicates (policy other than \<^verbatim>\<open>"save"\<close>): the data frame left and
  \<^verbatim>\<open>duplicated_series_count\<close>.
\<close>

definition filter_duplicates :: "row list \<Rightarrow> nat \<Rightarrow> row list \<times> nat" where
  "filter_duplicates out_df n_temp =
     (let marks = duplicates_mask out_df n_temp;
          duplicated_series_count = length (filter (\<lambda>b. b) marks)
      in if duplicated_series_count > 0
           then (drop_marked out_df marks, duplicated_series_count)
         else (out_df, duplicated_series_count))"

text \<open>
  The end of \<^verbatim>\<open>_ingest_series\<close>, from the count of the rows of \<^verbatim>\<open>df_temp\<close> on: the
  number of ingested series returned and the state left. Only an OSError is caught.
\<close>

definition persist :: "series_type_conf \<Rightarrow> faults \<Rightarrow> run_state \<Rightarrow> error + (int \<times> run_state)" where
  "persist ct flt st =
     (let ingested_series_count = int (length (df_temp st))
      in if ingested_series_count = 0 then Inr (ingested_series_count, st)
         else if out_read_fails flt
           then Inr (0, st\<lparr>trace := trace st @ [CritPersist]\<rparr>)
         else
           case cast_all (df_temp st) of
             Inl e \<Rightarrow> Inl e
           | Inr tmp \<Rightarrow>
               (case cast_all (output_file (disk st)) of
                  Inl e \<Rightarrow> Inl e
                | Inr old \<Rightarrow>
                    (let (out_df, duplicated_series_count) =
                           (if duplicated_policy ct \<noteq> ''save''
                              then filter_duplicates (old @ tmp) (length tmp)
                            else (old @ tmp, 0));
                         ingested = ingested_series_count - int duplicated_series_count
                     in if ingested > 0 then
                          if out_write_fails flt
                            then Inr (0, st\<lparr>df_temp := tmp, trace := trace st @ [CritPersist]\<rparr>)
                          else Inr (ingested,
                                    st\<lparr>df_temp := tmp,
                                       disk := (disk st)\<lparr>output_file := out_df,
                                                 output_writes := Suc (output_writes (disk st))\<rparr>\<rparr>)
                        else Inr (ingested, st\<lparr>df_temp := tmp\<rparr>))))"

subsection \<open>The whole run\<close>

text \<open>
  \<^verbatim>\<open>_ingest_series\<close> once \<^verbatim>\<open>max_series\<close> is set: the scan of the input directory, the
  processing of the series and the persistence. \<open>pipes\<close> is the number of worker tasks,
  \<open>ev0\<close> the messages logged so far.
\<close>

definition ingest_from_scan ::
  "pylib \<Rightarrow> conf \<Rightarrow> nat \<Rightarrow> faults \<Rightarrow> kind \<Rightarrow> int \<Rightarrow> event list \<Rightarrow> fs_state \<Rightarrow>
     error + (int \<times> run_state)" where
  "ingest_from_scan lib c pipes flt series_kind max_series ev0 s =
     (let current_type = (if series_kind = Labeled then labeled c else unlabeled c);
          st0 = \<lparr>df_temp = [], disk = s, trace = ev0\<rparr>
      in if iterdir_fails flt then Inr (0, st0\<lparr>trace := ev0 @ [CritIterdir]\<rparr>)
         else
           let input_series =
                 filter (\<lambda>f. has_extension (name f) (input_file_extension current_type))
                   (input_dir s);
               wrong_files =
                 filter (\<lambda>f. \<not> has_extension (name f) (input_file_extension current_type))
                   (input_dir s);
               st1 = st0\<lparr>trace := ev0 @ (if length wrong_files > 0
                                             then [WarnWrongFiles (map name wrong_files)]
                                           else [])\<rparr>
           in if length input_series > 0 then
                case (if multi_core_enable c
                        then multi_core lib c pipes current_type input_series st1
                      else single_core_loop lib c current_type max_series 0 input_series st1) of
                  Inl e \<Rightarrow> Inl e
                | Inr st2 \<Rightarrow> persist current_type flt st2
              else Inr (0, st1\<lparr>trace := trace st1 @ [InfoNoSeriesFound]\<rparr>))"

text \<open>
  \<^verbatim>\<open>_ingest_series(series_type, max_series=None)\<close>: an argument that is passed must be
  positive, otherwise the run ends with 0; in multi-core mode an argument that is
  passed is answered with a warning.
\<close>

definition ingest_series ::
  "pylib \<Rightarrow> conf \<Rightarrow> nat \<Rightarrow> faults \<Rightarrow> kind \<Rightarrow> int option \<Rightarrow> fs_state \<Rightarrow>
     error + (int \<times> run_state)" where
  "ingest_series lib c pipes flt series_kind max_series_arg s =
     (case max_series_arg of
        None \<Rightarrow> ingest_from_scan lib c pipes flt series_kind (max_series_per_run c) [] s
      | Some m \<Rightarrow>
          if \<not> (m > 0)
            then Inr (0, \<lparr>df_temp = [], disk = s, trace = [CritMaxSeries m]\<rparr>)
          else ingest_from_scan lib c pipes flt series_kind m
                 (if multi_core_enable c then [WarnMaxSeriesMultiCore m] else []) s)"

definition start_ingest_labeled_series ::
  "pylib \<Rightarrow> conf \<Rightarrow> nat \<Rightarrow> faults \<Rightarrow> int option \<Rightarrow> fs_state \<Rightarrow> error + (int \<times> run_state)" where
  "start_ingest_labeled_series lib c pipes flt max_series_arg s =
     ingest_series lib c pipes flt Labeled max_series_arg s"

definition start_ingest_unlabeled_series ::
  "pylib \<Rightarrow> conf \<Rightarrow> nat \<Rightarrow> faults \<Rightarrow> int option \<Rightarrow> fs_state \<Rightarrow> error + (int \<times> run_state)" where
  "start_ingest_unlabeled_series lib c pipes flt max_series_arg s =
     ingest_series lib c pipes flt Unlabeled max_series_arg s"

section \<open>Checking the resources: \<^verbatim>\<open>_check_resource_valid\<close>\<close>

text \<open>What is found at the path of a resource: nothing, a directory, or a file with its content.\<close>

datatype resource = Missing | IsDir | IsFile string

text \<open>
  The check of the first line of an output file that is not empty against the column
  headers. The line is split on the output separator of the \<^emph>\<open>labeled\<close> series
  (\<^verbatim>\<open>self._conf.labeled.output_series_separator\<close>) whatever the series type of the file;
  \<^verbatim>\<open>out_file_columns[-1][-1]\<close> raises IndexError when the last column is empty.
\<close>

definition check_header :: "string \<Rightarrow> string list \<Rightarrow> string \<Rightarrow> error + unit" where
  "check_header labeled_separator columns txt =
     (let out_file_first_line = readline txt
      in case split labeled_separator out_file_first_line of
           Inl e \<Rightarrow> Inl e
         | Inr out_file_columns \<Rightarrow>
             if out_file_columns = [] \<or> last out_file_columns = [] then Inl IndexError
             else
               let stripped =
                     (if last (last out_file_columns) = newline
                        then butlast out_file_columns @ [butlast (last out_file_columns)]
                      else out_file_columns)
               in if stripped \<noteq> columns then Inl ValueError else Inr ())"

text \<open>
  \<^verbatim>\<open>_check_resource_valid(res, exp_res_type, current_series)\<close>: the resource as the call
  leaves it, or the exception raised. (Failures of the operating system while the file
  is read or written are not modelled.)
\<close>

definition check_resource_valid ::
  "conf \<Rightarrow> resource \<Rightarrow> string \<Rightarrow> series_type_conf \<Rightarrow> error + resource" where
  "check_resource_valid c res exp_res_type current_series =
     (case res of
        IsFile txt \<Rightarrow>
          if exp_res_type = ''dir'' then Inl FileExistsError
          else if length txt = 0
            then Inr (IsFile (join (output_series_separator current_series) (series_columns c)))
          else (case check_header (output_series_separator (labeled c)) (series_columns c) txt of
                  Inl e \<Rightarrow> Inl e
                | Inr u \<Rightarrow> Inr (IsFile txt))
      | IsDir \<Rightarrow> if exp_res_type = ''file'' then Inl FileExistsError else Inr IsDir
      | Missing \<Rightarrow>
          if exp_res_type = ''file''
            then Inr (IsFile (join (output_series_separator current_series) (series_columns c)))
          else Inr IsDir)"

text \<open>
  The check \<^verbatim>\<open>__init__\<close> makes of the output file of the unlabeled series:
  \<^verbatim>\<open>self._check_resource_valid(self._conf.unlabeled.output_file_path, "file", self._conf.unlabeled)\<close>.
\<close>

definition check_unlabeled_output_file :: "conf \<Rightarrow> resource \<Rightarrow> error + resource" where
  "check_unlabeled_output_file c res = check_resource_valid c res ''file'' (unlabeled c)"

definition check_labeled_output_file :: "conf \<Rightarrow> resource \<Rightarrow> error + resource" where
  "check_labeled_output_file c res = check_resource_valid c res ''file'' (labeled c)"

section \<open>Scenarios\<close>

text \<open>
  A configuration, library answers and files used to run the definitions on concrete
  inputs: five samples per series, labeled series separated by commas and filled with
  zeros, thresholds that accept every count of nulls. \<open>scenario_lib\<close> gives what the
  library answers on the inputs of the scenarios: no file name matches the datetime
  format, and the content \<^verbatim>\<open>1,2,3\<close> read with the separator \<^verbatim>\<open>,\<close> is the one-row
  data frame \<^verbatim>\<open>[1.0, 2.0, 3.0]\<close>.
\<close>

definition scenario_lib :: pylib where
  "scenario_lib =
     \<lparr>strptime = (\<lambda>nm fmt. None),
      read_csv = (\<lambda>sep txt. if sep = '','' \<and> txt = ''1,2,3''
                              then Inr [[Num 1, Num 2, Num 3]]
                            else Inl ''could not convert string to float''),
      fillna_method_error = (\<lambda>m. ''Invalid fill method'')\<rparr>"

definition scenario_labeled :: series_type_conf where
  "scenario_labeled =
     \<lparr>series_type = Labeled, input_file_extension = ''.dat'',
      input_file_datetime_format = ''%Y-%m-%d %H-%M-%S'', input_series_separator = '','',
      output_series_separator = '','', max_null_perc = 1, max_consec_null = 5,
      null_filling_strategy = ''zeroFill'', duplicated_policy = ''discard'',
      malformed_policy = ''drop''\<rparr>"

definition scenario_unlabeled :: series_type_conf where
  "scenario_unlabeled =
     scenario_labeled\<lparr>series_type := Unlabeled, output_series_separator := '';''\<rparr>"

definition scenario_conf :: conf where
  "scenario_conf =
     \<lparr>sample_size = 5, default_label = ''s'', starting_index = 0, max_series_per_run = 0,
      multi_core_enable = False, multi_core_limit = 0,
      labeled = scenario_labeled, unlabeled = scenario_unlabeled\<rparr>"


text \<open>The scenario with the digit \<^verbatim>\<open>4\<close> as output separator of the labeled series.\<close>

definition scenario_conf_digit :: conf where
  "scenario_conf_digit =
     scenario_conf\<lparr>labeled := scenario_labeled\<lparr>output_series_separator := ''4''\<rparr>\<rparr>"

definition file_A :: series_file where
  "file_A = \<lparr>name = ''A.dat'', content = ''1,2,3'', st_ctime = 1700000000,
             stat_fails = False, copy_fails = False, unlink_fails = False\<rparr>"


definition file_E :: series_file where
  "file_E = file_A\<lparr>name := ''E.dat'', content := []\<rparr>"

definition no_faults :: faults where
  "no_faults = \<lparr>iterdir_fails = False, out_read_fails = False, out_write_fails = False\<rparr>"

definition row_A :: row where
  "row_A = \<lparr>timestamp = 1700000000, cells = [Num 1, Num 2, Num 3, Num 0, Num 0, Num 0]\<rparr>"


definition row_old :: row where
  "row_old = \<lparr>timestamp = 1600000000, cells = [Num 1, Num 2, Num 3, Num 0, Num 0, Num 0]\<rparr>"

definition empty_disk :: fs_state where
  "empty_disk = \<lparr>input_dir = [], malformed_dir = [], output_file = [], output_writes = 0\<rparr>"

section \<open>Properties of the null filling and of the width reconciliation\<close>

















section \<open>Properties of \<^verbatim>\<open>_process_series\<close>\<close>

text \<open>
  Claim C5. A file of size zero whose size can be read is classified as malformed with
  the cause \<^verbatim>\<open>empty series\<close>, whatever \<^verbatim>\<open>strptime\<close> answers on its name: the only
  message logged is the one of the empty series, so the fallback to the creation time
  is not taken.
\<close>

theorem empty_series_precedes_datetime:
  assumes "\<not> stat_fails f" and "st_size f = 0"
  shows "check_series lib c ct f =
           Inr (Malformed ''empty series'', [WarnEmptySeries (name f)])"
  using assms by (simp add: check_series_def)

theorem empty_series_precedes_datetime_witness:
  "\<not> stat_fails file_E \<and> st_size file_E = 0 \<and>
   strptime scenario_lib (take (length (name file_E) - 4) (name file_E))
     (input_file_datetime_format scenario_labeled) = None \<and>
   check_series scenario_lib scenario_conf scenario_labeled file_E =
     Inr (Malformed ''empty series'', [WarnEmptySeries ''E.dat''])"
  using empty_series_precedes_datetime [of file_E scenario_lib scenario_conf scenario_labeled]
  by (simp add: file_E_def file_A_def st_size_def scenario_lib_def)

text \<open>
  The row \<^verbatim>\<open>1,2,3\<close> reconciled with five samples, and its nulls.
\<close>

lemma reconcile_123:
  "reconcile 5 nm [Num 1, Num 2, Num 3] =
     ([Num 1, Num 2, Num 3, NaN, NaN, NaN], [WarnNullFilled nm 3])"
  by (simp add: reconcile_def samples_delta_def eval_nat_numeral)

lemma nulls_123:
  "null_samples_count [Num 1, Num 2, Num 3, NaN, NaN, NaN] = 3"
  "max_consec_null_of [Num 1, Num 2, Num 3, NaN, NaN, NaN] = 3"
  by (simp_all add: null_samples_count_def max_consec_null_of_def isnull_def)

text \<open>
  Claim C3, as stated, at the scenario: the file \<^verbatim>\<open>A.dat\<close> with content \<^verbatim>\<open>1,2,3\<close>, five
  samples per series, labeled series, filling with zeros. The difference of the widths
  is \<open>5 + 1 - 3 = 3\<close> and not 2, and the row has three zeros after \<open>1, 2, 3\<close> and not two.
\<close>

theorem scenario_A_row_differs:
  "samples_delta (sample_size scenario_conf) [Num 1, Num 2, Num 3] = 3 \<and>
   samples_delta (sample_size scenario_conf) [Num 1, Num 2, Num 3] \<noteq> 2 \<and>
   check_series scenario_lib scenario_conf scenario_labeled file_A =
     Inr (Valid \<lparr>timestamp = 1700000000,
                 cells = [Num 1, Num 2, Num 3, Num 0, Num 0, Num 0]\<rparr>,
          [WarnDatetimeFallback ''A.dat'', WarnNullFilled ''A.dat'' 3]) \<and>
   [Num 1, Num 2, Num 3, Num 0, Num 0, Num 0] \<noteq> [Num 1, Num 2, Num 3, Num 0, Num (0::rat)]"
  by code_simp

text \<open>
  Claim C3, amended. When \<^verbatim>\<open>A.dat\<close> holds \<^verbatim>\<open>1,2,3\<close>, is read as the row \<open>[1, 2, 3]\<close>, the
  series are labeled with five samples, nulls are filled with zeros and the
  thresholds accept three consecutive nulls, the difference of the widths is 3, three
  nulls are appended (with a warning) and filled with zeros, and the valid row is
  \<open>[timestamp, 1, 2, 3, 0, 0, 0]\<close>.
\<close>

theorem scenario_A_row:
  assumes "\<not> stat_fails f" and "content f = ''1,2,3''"
    and "read_csv lib (input_series_separator ct) (content f) = Inr [[Num 1, Num 2, Num 3]]"
    and "sample_size c = 5" and "series_type ct = Labeled"
    and "null_filling_strategy ct = ''zeroFill''"
    and "3 \<le> max_null_perc ct * 5" and "3 \<le> max_consec_null ct"
  shows "samples_delta (sample_size c) [Num 1, Num 2, Num 3] = 3 \<and>
         (\<exists>ts evs. check_series lib c ct f =
            Inr (Valid \<lparr>timestamp = ts,
                        cells = [Num 1, Num 2, Num 3, Num 0, Num 0, Num 0]\<rparr>, evs) \<and>
            WarnNullFilled (name f) 3 \<in> set evs)"
proof -
  obtain ts ev1 where t:
    "(case strptime lib (take (length (name f) - 4) (name f)) (input_file_datetime_format ct) of
        Some t \<Rightarrow> (t, [])
      | None \<Rightarrow> (st_ctime f, [WarnDatetimeFallback (name f)])) = (ts, ev1)"
    by (cases "strptime lib (take (length (name f) - 4) (name f)) (input_file_datetime_format ct)")
       auto
  have sz: "st_size f \<noteq> 0" using assms(2) by (simp add: st_size_def)
  have fl: "fill_nulls lib ''zeroFill'' [Num 1, Num 2, Num 3, NaN, NaN, NaN] =
              Inr [Num 1, Num 2, Num 3, Num 0, Num 0, Num 0]"
    by (simp add: fill_nulls_def zero_fill_def isnull_def)
  have "check_series lib c ct f =
          Inr (Valid \<lparr>timestamp = ts, cells = [Num 1, Num 2, Num 3, Num 0, Num 0, Num 0]\<rparr>,
               ev1 @ [WarnNullFilled (name f) 3])"
    using assms(1,3-8) sz t
    by (simp add: check_series_def reconcile_123 nulls_123 fl)
  moreover have "samples_delta (sample_size c) [Num 1, Num 2, Num 3] = 3"
    using assms(4) by (simp add: samples_delta_def)
  ultimately show ?thesis by auto
qed

theorem scenario_A_row_witness:
  "\<not> stat_fails file_A \<and> content file_A = ''1,2,3'' \<and>
   sample_size scenario_conf = 5 \<and> series_type scenario_labeled = Labeled \<and>
   null_filling_strategy scenario_labeled = ''zeroFill'' \<and>
   (\<exists>ts evs. check_series scenario_lib scenario_conf scenario_labeled file_A =
      Inr (Valid \<lparr>timestamp = ts,
                  cells = [Num 1, Num 2, Num 3, Num 0, Num 0, Num 0]\<rparr>, evs) \<and>
      WarnNullFilled (name file_A) 3 \<in> set evs)"
  using scenario_A_row [of file_A scenario_lib scenario_labeled scenario_conf]
  by (simp add: file_A_def scenario_lib_def scenario_labeled_def scenario_conf_def)



section \<open>Properties of the filtering of duplicates\<close>

text \<open>
  The marks of \<^verbatim>\<open>duplicated\<close> on the rows appended to the output file, the rows that
  \<^verbatim>\<open>drop\<close> leaves, and the count of the marks.
\<close>

lemma length_duplicated_from: "length (duplicated_from seen rs) = length rs"
  by (induction rs arbitrary: seen) auto

lemma duplicated_from_append:
  "duplicated_from seen (xs @ ys) =
     duplicated_from seen xs @ duplicated_from (rev (map cells xs) @ seen) ys"
  by (induction xs arbitrary: seen) auto


lemma duplicates_mask_append:
  "duplicates_mask (old @ new) (length new) =
     replicate (length old) False @ duplicated_from (rev (map cells old)) new"
  by (simp add: duplicates_mask_def duplicated_def duplicated_from_append
      length_duplicated_from)








lemma snd_filter_duplicates:
  "snd (filter_duplicates out_df n) = length (filter (\<lambda>b. b) (duplicates_mask out_df n))"
  by (simp add: filter_duplicates_def Let_def)


lemma length_cast_all: "cast_all rs = Inr rs' \<Longrightarrow> length rs' = length rs"
proof (induction rs arbitrary: rs')
  case Nil
  then show ?case by simp
next
  case (Cons r rs)
  then show ?case by (auto split: sum.splits)
qed

section \<open>Properties of the persistence\<close>


lemma persist_filtered:
  assumes "df_temp st \<noteq> []" and "\<not> out_read_fails flt"
    and "cast_all (df_temp st) = Inr tmp" and "cast_all (output_file (disk st)) = Inr old"
    and "duplicated_policy ct \<noteq> ''save''"
  shows "persist ct flt st =
    (if int (length tmp) - int (snd (filter_duplicates (old @ tmp) (length tmp))) > 0 then
       if out_write_fails flt
         then Inr (0, st\<lparr>df_temp := tmp, trace := trace st @ [CritPersist]\<rparr>)
       else Inr (int (length tmp) - int (snd (filter_duplicates (old @ tmp) (length tmp))),
                 st\<lparr>df_temp := tmp,
                    disk := (disk st)\<lparr>output_file := fst (filter_duplicates (old @ tmp) (length tmp)),
                              output_writes := Suc (output_writes (disk st))\<rparr>\<rparr>)
     else Inr (int (length tmp) - int (snd (filter_duplicates (old @ tmp) (length tmp))),
               st\<lparr>df_temp := tmp\<rparr>))"
  using assms length_cast_all[OF assms(3)]
  by (simp add: persist_def Let_def case_prod_beta)






section \<open>Properties of a run: duplicates\<close>







text \<open>
  Claim C10. When duplicates are filtered and every row appended by the run is marked
  as a duplicate, the run returns 0 and leaves the resources as they were: the output
  file is not written.
\<close>

theorem all_duplicates_no_rewrite:
  assumes ne: "df_temp st \<noteq> []" and rd: "\<not> out_read_fails flt"
    and pol: "duplicated_policy ct \<noteq> ''save''"
    and tmp: "cast_all (df_temp st) = Inr new"
    and old: "cast_all (output_file (disk st)) = Inr old"
    and all: "\<forall>i < length new. duplicates_mask (old @ new) (length new) ! (length old + i)"
  shows "\<exists>st'. persist ct flt st = Inr (0, st') \<and> disk st' = disk st"
proof -
  let ?m = "duplicated_from (rev (map cells old)) new"
  have len: "length ?m = length new" by (rule length_duplicated_from)
  have "\<forall>i < length ?m. ?m ! i"
    using all len by (simp add: duplicates_mask_append nth_append)
  then have "\<forall>b \<in> set ?m. b" by (simp add: all_set_conv_all_nth)
  then have "filter (\<lambda>b. b) ?m = ?m" by (simp add: filter_id_conv)
  then have "snd (filter_duplicates (old @ new) (length new)) = length new"
    by (simp add: snd_filter_duplicates duplicates_mask_append len)
  then show ?thesis
    using persist_filtered[OF ne rd tmp old pol] by simp
qed

theorem all_duplicates_no_rewrite_witness:
  "df_temp \<lparr>df_temp = [row_A], disk = empty_disk\<lparr>output_file := [row_old]\<rparr>, trace = []\<rparr> \<noteq> [] \<and>
   (\<exists>st'. persist scenario_labeled no_faults
            \<lparr>df_temp = [row_A], disk = empty_disk\<lparr>output_file := [row_old]\<rparr>, trace = []\<rparr> =
            Inr (0, st') \<and>
          disk st' = empty_disk\<lparr>output_file := [row_old]\<rparr>)"
proof -
  let ?st = "\<lparr>df_temp = [row_A], disk = empty_disk\<lparr>output_file := [row_old]\<rparr>, trace = []\<rparr>"
  have ne: "df_temp ?st \<noteq> []" by simp
  have rd: "\<not> out_read_fails no_faults" by code_simp
  have p: "duplicated_policy scenario_labeled \<noteq> ''save''" by code_simp
  have t: "cast_all (df_temp ?st) = Inr [row_A]" by code_simp
  have ol: "cast_all (output_file (disk ?st)) = Inr [row_old]" by code_simp
  have m: "duplicates_mask ([row_old] @ [row_A]) (length [row_A]) = [False, True]"
    by code_simp
  have al: "\<forall>i < length [row_A].
              duplicates_mask ([row_old] @ [row_A]) (length [row_A]) ! (length [row_old] + i)"
    unfolding m by simp
  from all_duplicates_no_rewrite[OF ne rd p t ol al] ne show ?thesis by simp
qed

section \<open>Properties of a run: failures and empty runs\<close>



text \<open>
  Claim C8. When no file of the input directory has the extension of the series type,
  the run returns 0 with the resources as they were (the output file among them) and
  no row collected.
\<close>

theorem no_candidates_returns_zero:
  assumes "\<forall>f \<in> set (input_dir s).
             \<not> has_extension (name f)
                 (input_file_extension (if k = Labeled then labeled c else unlabeled c))"
  shows "\<exists>st'. ingest_series lib c pipes flt k m s = Inr (0, st') \<and>
               disk st' = s \<and> df_temp st' = []"
proof -
  have e: "filter (\<lambda>f. has_extension (name f)
              (input_file_extension (if k = Labeled then labeled c else unlabeled c)))
             (input_dir s) = []"
    using assms by (simp add: filter_empty_conv)
  have "\<exists>st'. ingest_from_scan lib c pipes flt k mx ev s = Inr (0, st') \<and>
               disk st' = s \<and> df_temp st' = []" for mx ev
    using e by (simp add: ingest_from_scan_def Let_def)
  then show ?thesis
    by (cases m) (simp_all add: ingest_series_def)
qed

theorem no_candidates_returns_zero_witness:
  "input_dir (empty_disk\<lparr>input_dir := [file_A\<lparr>name := ''notes.txt''\<rparr>],
                         output_file := [row_old]\<rparr>) = [file_A\<lparr>name := ''notes.txt''\<rparr>] \<and>
   \<not> has_extension (name (file_A\<lparr>name := ''notes.txt''\<rparr>))
       (input_file_extension (labeled scenario_conf)) \<and>
   (\<exists>st'. ingest_series scenario_lib scenario_conf 1 no_faults Labeled None
            (empty_disk\<lparr>input_dir := [file_A\<lparr>name := ''notes.txt''\<rparr>],
                        output_file := [row_old]\<rparr>) = Inr (0, st') \<and>
          output_file (disk st') = [row_old] \<and> output_writes (disk st') = 0)"
proof -
  let ?s = "empty_disk\<lparr>input_dir := [file_A\<lparr>name := ''notes.txt''\<rparr>],
                                      output_file := [row_old]\<rparr>"
  have h: "\<forall>f \<in> set (input_dir ?s).
             \<not> has_extension (name f)
                 (input_file_extension (if Labeled = Labeled then labeled scenario_conf
                                        else unlabeled scenario_conf))"
    by (simp add: has_extension_def scenario_conf_def scenario_labeled_def)
  from no_candidates_returns_zero[OF h, of scenario_lib 1 no_faults None]
  obtain st' where "ingest_series scenario_lib scenario_conf 1 no_faults Labeled None ?s
      = Inr (0, st')" "disk st' = ?s" by blast
  then have "ingest_series scenario_lib scenario_conf 1 no_faults Labeled None ?s = Inr (0, st') \<and>
      output_file (disk st') = [row_old] \<and> output_writes (disk st') = 0"
    by (simp add: empty_disk_def)
  moreover have "\<not> has_extension (name (file_A\<lparr>name := ''notes.txt''\<rparr>))
                   (input_file_extension (labeled scenario_conf))"
    using h by simp
  ultimately show ?thesis by auto
qed

section \<open>Properties of the processing loops\<close>



















section \<open>Properties of a run: the limit on the valid series\<close>




section \<open>Properties of the check of the output files\<close>

text \<open>
  \<^verbatim>\<open>split\<close> and \<^verbatim>\<open>join\<close>: joining the pieces of a split gives the string back, the last
  piece is empty only when the string ends with the separator, and two separators that
  join two or more columns to the same string are equal.
\<close>

lemma split_from_not_Nil: "split_from sep acc s \<noteq> []"
  by (induction sep acc s rule: split_from.induct) (subst split_from.simps, simp)

lemma join_Cons: "xs \<noteq> [] \<Longrightarrow> join sep (x # xs) = x @ sep @ join sep xs"
  by (cases xs) simp_all

lemma join_split_from: "sep \<noteq> [] \<Longrightarrow> join sep (split_from sep acc s) = acc @ s"
proof (induction sep acc s rule: split_from.induct)
  case (1 sep acc s)
  show ?case
  proof (cases "s = []")
    case True
    then show ?thesis by (subst split_from.simps) simp
  next
    case ne: False
    show ?thesis
    proof (cases "take (length sep) s = sep")
      case True
      have "join sep (split_from sep [] (drop (length sep) s)) = [] @ drop (length sep) s"
        using "1.IH"(1)[OF ne _ "1.prems"] True "1.prems" by simp
      moreover have "sep @ drop (length sep) s = s"
        using True by (metis append_take_drop_id)
      ultimately show ?thesis using ne True "1.prems"
        by (subst split_from.simps) (simp add: join_Cons split_from_not_Nil)
    next
      case False
      have "join sep (split_from sep (acc @ [hd s]) (tl s)) = (acc @ [hd s]) @ tl s"
        using "1.IH"(2)[OF ne _ "1.prems"] False by simp
      then show ?thesis using ne False
        by (subst split_from.simps) simp
    qed
  qed
qed

lemma last_split_from_Nil:
  "last (split_from sep acc s) = [] \<Longrightarrow> (acc = [] \<and> s = []) \<or> suffix sep s"
proof (induction sep acc s rule: split_from.induct)
  case (1 sep acc s)
  show ?case
  proof (cases "s = []")
    case True
    with "1.prems" show ?thesis by (subst (asm) split_from.simps) simp
  next
    case ne: False
    show ?thesis
    proof (cases "sep \<noteq> [] \<and> take (length sep) s = sep")
      case True
      from "1.prems" ne True
      have "last (split_from sep [] (drop (length sep) s)) = []"
        by (subst (asm) split_from.simps) (simp add: split_from_not_Nil)
      from "1.IH"(1)[OF ne True this]
      have "drop (length sep) s = [] \<or> suffix sep (drop (length sep) s)" by auto
      then show ?thesis
      proof
        assume "drop (length sep) s = []"
        with True have "s = sep" by (metis append_Nil2 append_take_drop_id)
        then show ?thesis by simp
      next
        assume "suffix sep (drop (length sep) s)"
        then have "suffix sep s" by (meson suffix_drop suffix_order.trans)
        then show ?thesis by simp
      qed
    next
      case False
      from "1.prems" ne False
      have "last (split_from sep (acc @ [hd s]) (tl s)) = []"
        by (subst (asm) split_from.simps) auto
      from "1.IH"(2)[OF ne False this]
      have "suffix sep (tl s)" by auto
      then have "suffix sep s" by (meson suffix_tl suffix_order.trans)
      then show ?thesis by simp
    qed
  qed
qed

lemma join_snoc: "xs \<noteq> [] \<Longrightarrow> join sep (xs @ [y]) = join sep xs @ sep @ y"
proof (induction xs)
  case Nil
  then show ?case by simp
next
  case (Cons x xs)
  show ?case
  proof (cases "xs = []")
    case True
    then show ?thesis by simp
  next
    case False
    with Cons.IH show ?thesis by (simp add: join_Cons)
  qed
qed

lemma join_butlast_last:
  assumes "parts \<noteq> []" and "last parts \<noteq> []"
  shows "join sep (butlast parts @ [butlast (last parts)]) = butlast (join sep parts)"
    and "last (join sep parts) = last (last parts)"
proof -
  from assms(1) have p: "parts = butlast parts @ [last parts]" by simp
  show "join sep (butlast parts @ [butlast (last parts)]) = butlast (join sep parts)"
  proof (cases "butlast parts = []")
    case True
    with p have "parts = [last parts]" by simp
    then have "join sep parts = last parts" by (metis join.simps(2))
    with True show ?thesis by simp
  next
    case False
    have "join sep parts = join sep (butlast parts) @ sep @ last parts"
      using join_snoc[OF False, of sep "last parts"] p by simp
    then show ?thesis using assms(2) join_snoc[OF False, of sep "butlast (last parts)"]
      by (simp add: butlast_append)
  qed
  show "last (join sep parts) = last (last parts)"
  proof (cases "butlast parts = []")
    case True
    with p have "parts = [last parts]" by simp
    then have "join sep parts = last parts" by (metis join.simps(2))
    then show ?thesis by simp
  next
    case False
    have "join sep parts = join sep (butlast parts) @ sep @ last parts"
      using join_snoc[OF False, of sep "last parts"] p by simp
    then show ?thesis using assms(2) by simp
  qed
qed

lemma length_join:
  "length (join sep xs) = sum_list (map length xs) + (length xs - 1) * length sep"
proof (induction xs)
  case Nil
  then show ?case by simp
next
  case (Cons x xs)
  then show ?case by (cases xs) simp_all
qed

lemma join_same_separator:
  assumes "join l (a # b # rest) = join u (a # b # rest)"
  shows "l = u"
proof -
  have "length (join l (a # b # rest)) = length (join u (a # b # rest))"
    using assms by simp
  then have "Suc (length rest) * length l = Suc (length rest) * length u"
    by (simp add: length_join)
  then have len: "length l = length u"
    by (simp only: mult_cancel1) simp
  have "l @ join l (b # rest) = u @ join u (b # rest)"
    using assms by simp
  with len show ?thesis by simp
qed

lemma check_header_mismatch:
  assumes "l \<noteq> []" and "split_from l [] (readline txt) = parts" and "last parts \<noteq> []"
    and "(if last (last parts) = newline then butlast parts @ [butlast (last parts)]
          else parts) \<noteq> cols"
  shows "check_header l cols txt = Inl ValueError"
proof (cases "last (last parts) = newline")
  case True
  with assms split_from_not_Nil[of l "[]" "readline txt"] show ?thesis
    by (simp add: check_header_def split_def Let_def)
next
  case False
  with assms split_from_not_Nil[of l "[]" "readline txt"] show ?thesis
    by (simp add: check_header_def split_def Let_def)
qed

text \<open>
  The header check on the output file of the unlabeled series when the two output
  separators differ: a file whose first line is the column headers joined with the
  separator of the unlabeled series, and does not end with the separator of the labeled
  series, is rejected with ValueError.
\<close>

lemma unlabeled_header_rejected:
  assumes ne: "output_series_separator (unlabeled c) \<noteq> output_series_separator (labeled c)"
    and hdr: "header = join (output_series_separator (unlabeled c)) (series_columns c)"
    and single: "newline \<notin> set header"
    and content: "txt = header \<or> (\<exists>rest. txt = header @ newline # rest)"
    and nosuf: "\<not> suffix (output_series_separator (labeled c)) (readline txt)"
  shows "check_unlabeled_output_file c (IsFile txt) = Inl ValueError"
proof -
  define l where "l = output_series_separator (labeled c)"
  define u where "u = output_series_separator (unlabeled c)"
  obtain rest where cols: "series_columns c = ''timestamp'' # ''ANOMALOUS'' # rest"
    by (simp add: series_columns_def)
  have hne: "header \<noteq> []" by (simp add: hdr cols)
  have tne: "length txt \<noteq> 0" using content hne by auto
  have lne: "l \<noteq> []" using nosuf by (auto simp: l_def)
  have line: "readline txt = header \<or> readline txt = header @ [newline]"
  proof -
    from content show ?thesis
    proof
      assume "txt = header"
      with single have "readline txt = header"
        by (auto simp: readline_def takeWhile_eq_all_conv[THEN iffD2])
      then show ?thesis by simp
    next
      assume "\<exists>rest. txt = header @ newline # rest"
      then obtain r where "txt = header @ newline # r" by blast
      moreover from single have "takeWhile (\<lambda>c. c \<noteq> newline) (header @ newline # r) = header"
        by (induction header) auto
      ultimately have "readline txt = header @ [newline]"
        by (simp add: readline_def)
      then show ?thesis by simp
    qed
  qed
  define parts where "parts = split_from l [] (readline txt)"
  have jn: "join l parts = readline txt"
    using join_split_from[OF lne, of "[]" "readline txt"] by (simp add: parts_def)
  have pne: "parts \<noteq> []" by (simp add: parts_def split_from_not_Nil)
  have lpne: "last parts \<noteq> []"
  proof
    assume "last parts = []"
    from last_split_from_Nil[OF this[unfolded parts_def]] nosuf line hne
    show False by (auto simp: l_def)
  qed
  note bl = join_butlast_last[OF pne lpne, of l]
  have "(if last (last parts) = newline then butlast parts @ [butlast (last parts)]
         else parts) \<noteq> series_columns c"
  proof
    assume eq: "(if last (last parts) = newline then butlast parts @ [butlast (last parts)]
                 else parts) = series_columns c"
    have "join l (series_columns c) = header"
    proof (cases "readline txt = header")
      case True
      then have "last (last parts) \<noteq> newline"
        using bl(2) jn single hne by (metis last_in_set)
      with eq jn True show ?thesis by simp
    next
      case False
      with line have ln: "readline txt = header @ [newline]" by simp
      then have "last (last parts) = newline" using bl(2) jn by simp
      with eq bl(1) jn ln show ?thesis by simp
    qed
    then have "join l (series_columns c) = join u (series_columns c)"
      by (simp add: hdr u_def)
    then have "l = u" unfolding cols by (rule join_same_separator)
    with ne show False by (simp add: l_def u_def)
  qed
  from check_header_mismatch[OF lne parts_def[symmetric] lpne this] tne
  show ?thesis
    by (simp add: check_unlabeled_output_file_def check_resource_valid_def l_def)
qed

text \<open>
  Claim C9, on the scenario with the output separators \<^verbatim>\<open>;\<close> (unlabeled) and \<^verbatim>\<open>4\<close>
  (labeled). The first line of the output file of the unlabeled series is split on the
  separator of the labeled series. The file that the service itself creates when the
  output file is missing ends with the separator of the labeled series, so the last
  piece is empty and \<^verbatim>\<open>out_file_columns[-1][-1]\<close> raises IndexError, not ValueError; with
  the separator \<^verbatim>\<open>,\<close> for the labeled series the same file is rejected with ValueError.
\<close>

theorem unlabeled_header_index_error:
  "output_series_separator (unlabeled scenario_conf_digit) = '';'' \<and>
   output_series_separator (labeled scenario_conf_digit) = ''4'' \<and>
   check_unlabeled_output_file scenario_conf_digit Missing =
     Inr (IsFile ''timestamp;ANOMALOUS;s0;s1;s2;s3;s4'') \<and>
   check_unlabeled_output_file scenario_conf_digit
     (IsFile ''timestamp;ANOMALOUS;s0;s1;s2;s3;s4'') = Inl IndexError \<and>
   check_unlabeled_output_file scenario_conf
     (IsFile ''timestamp;ANOMALOUS;s0;s1;s2;s3;s4'') = Inl ValueError"
  by code_simp

end
